theory Spec2Isabelle
  imports
    Complex_Main
    "HOL-Library.Log_Nat"
    "HOL-Library.Sublist"
    "HOL-Library.Multiset"
    "HOL-Library.Char_ord"
    "HOL-Library.List_Lexorder"
begin

section \<open>Expense Tracker (script.js): the ledger and its derived views\<close>

text \<open>
  The development embeds the data-carrying part of \<^verbatim>\<open>script.js\<close>: loading and
  normalising the stored transactions, the date and category filter, the balance, the
  monthly summary, adding and deleting a transaction, and the CSV text of the export.
  The DOM (rendering, alerts, the download link) is left out; the form fields that the
  code reads are inputs of the functions that read them.

  What the JavaScript host supplies and the repository does not define is a parameter of
  the function that uses it: \<^verbatim>\<open>JSON.parse\<close>, the conversion of strings and objects to
  numbers, \<^verbatim>\<open>localeCompare\<close>, the clock, the random numbers, the local time zone.
  Theorems hold for every value of these parameters unless a hypothesis says otherwise.
\<close>

subsection \<open>Numbers\<close>

text \<open>
  A JavaScript number is an IEEE 754 binary64 value. \<open>Fin q\<close> is the finite double whose
  value is the rational \<open>q\<close>; the two zeros are identified, since no operation of the
  program tells them apart. Arithmetic rounds to nearest, ties to even (\<open>to_double\<close>).
\<close>

datatype jsnum = NaN | PInf | NInf | Fin rat

definition ilog2 :: "rat \<Rightarrow> int" where
  \<comment> \<open>\<open>\<lfloor>log\<^sub>2 a\<rfloor>\<close> for \<open>a > 0\<close>\<close>
  "ilog2 a = (let (p, d) = quotient_of a; l = bitlen p - bitlen d
              in if 2 powi l \<le> a then l else l - 1)"

definition round_half_even :: "rat \<Rightarrow> int" where
  "round_half_even x =
     (let f = \<lfloor>x\<rfloor>; r = x - of_int f
      in if r < 1 / 2 then f else if 1 / 2 < r then f + 1 else if even f then f else f + 1)"

definition to_double :: "rat \<Rightarrow> jsnum" where
  \<comment> \<open>the double nearest to \<open>q\<close>: 53 significant bits, exponent of the last bit between
      \<open>-1074\<close> and \<open>971\<close>; a magnitude that rounds to \<open>2\<^sup>1\<^sup>0\<^sup>2\<^sup>4\<close> or more is infinite\<close>
  "to_double q =
     (if q = 0 then Fin 0
      else let a = \<bar>q\<bar>;
               e = max (ilog2 a - 52) (- 1074);
               m = round_half_even (a / 2 powi e)
           in if 971 < e \<or> (e = 971 \<and> 2 ^ 53 \<le> m) then (if q < 0 then NInf else PInf)
              else Fin (if q < 0 then - (of_int m * 2 powi e) else of_int m * 2 powi e))"

fun fadd :: "jsnum \<Rightarrow> jsnum \<Rightarrow> jsnum" where
  "fadd (Fin a) (Fin b) = to_double (a + b)"
| "fadd NaN _ = NaN"
| "fadd _ NaN = NaN"
| "fadd PInf NInf = NaN"
| "fadd NInf PInf = NaN"
| "fadd PInf _ = PInf"
| "fadd _ PInf = PInf"
| "fadd NInf _ = NInf"
| "fadd _ NInf = NInf"



fun Math_abs :: "jsnum \<Rightarrow> jsnum" where
  "Math_abs NaN = NaN"
| "Math_abs PInf = PInf"
| "Math_abs NInf = PInf"
| "Math_abs (Fin a) = Fin \<bar>a\<bar>"

fun isNaN :: "jsnum \<Rightarrow> bool" where
  "isNaN NaN = True"
| "isNaN _ = False"

fun isFinite :: "jsnum \<Rightarrow> bool" where
  "isFinite (Fin a) = True"
| "isFinite _ = False"

fun strict_eq :: "jsnum \<Rightarrow> jsnum \<Rightarrow> bool" where
  \<comment> \<open>\<^verbatim>\<open>a === b\<close> on numbers: \<^verbatim>\<open>NaN\<close> equals nothing\<close>
  "strict_eq NaN _ = False"
| "strict_eq _ NaN = False"
| "strict_eq a b = (a = b)"

fun js_le :: "jsnum \<Rightarrow> jsnum \<Rightarrow> bool" where
  \<comment> \<open>\<^verbatim>\<open>a <= b\<close> on numbers\<close>
  "js_le NaN _ = False"
| "js_le _ NaN = False"
| "js_le NInf _ = True"
| "js_le _ PInf = True"
| "js_le (Fin a) (Fin b) = (a \<le> b)"
| "js_le _ _ = False"

subsection \<open>Transactions\<close>

text \<open>
  \<^verbatim>\<open>{ id: number, name: string, amount: number, type: 'income'|'expense',
    date: 'YYYY-MM-DD', category: string }\<close>
  The record is polymorphic in the fields that \<^verbatim>\<open>loadTransactions\<close> copies from the
  stored data without looking at them: a loaded transaction carries whatever value was
  stored there, and the operations on the ledger are those of the documented shape, where
  the id is a number and the texts are strings. \<open>type\<close> is a string, as in the code, which
  compares it with \<^verbatim>\<open>'income'\<close> and \<^verbatim>\<open>'expense'\<close>.
\<close>

record ('i, 's) transaction =
  tx_id :: 'i
  name :: 's
  amount :: jsnum
  type :: string
  date :: 's
  category :: 's

type_synonym tx = "(jsnum, string) transaction"

subsection \<open>Deleting\<close>

text \<open>
  \<^verbatim>\<open>transactions = transactions.filter(t => t.id !== id);\<close>
  Saving and rendering after it do not change \<^verbatim>\<open>transactions\<close>.
\<close>

definition deleteTransaction :: "jsnum \<Rightarrow> tx list \<Rightarrow> tx list" where
  "deleteTransaction i transactions = filter (\<lambda>t. \<not> strict_eq (tx_id t) i) transactions"

subsection \<open>Dates\<close>

text \<open>
  A \<^verbatim>\<open>Date\<close> is its time value, milliseconds since the epoch in UTC, or \<open>None\<close> for
  the invalid date (time value \<^verbatim>\<open>NaN\<close>). Day numbers follow ECMAScript's \<^verbatim>\<open>MakeDay\<close>.
  The local time zone is a fixed offset \<open>tza\<close> in milliseconds (local = UTC + \<open>tza\<close>);
  daylight saving changes are not modelled.
\<close>

definition msPerDay :: int where
  "msPerDay = 86400000"

definition is_digit :: "char \<Rightarrow> bool" where
  "is_digit c = (48 \<le> (of_char c :: nat) \<and> (of_char c :: nat) \<le> 57)"

definition nat_of_digits :: "string \<Rightarrow> nat" where
  "nat_of_digits s = foldl (\<lambda>n c. 10 * n + (of_char c - 48)) 0 s"

definition isLeapYear :: "int \<Rightarrow> bool" where
  "isLeapYear y = (y mod 4 = 0 \<and> (y mod 100 \<noteq> 0 \<or> y mod 400 = 0))"

definition DayFromYear :: "int \<Rightarrow> int" where
  "DayFromYear y =
     365 * (y - 1970) + (y - 1969) div 4 - (y - 1901) div 100 + (y - 1601) div 400"

definition DaysInMonth :: "int \<Rightarrow> int \<Rightarrow> int" where
  "DaysInMonth y m =
     (if m = 2 then (if isLeapYear y then 29 else 28)
      else if m = 4 \<or> m = 6 \<or> m = 9 \<or> m = 11 then 30 else 31)"

definition MakeDay :: "int \<Rightarrow> int \<Rightarrow> int \<Rightarrow> int" where
  \<comment> \<open>day number of year \<open>y\<close>, month \<open>m\<close> (1 to 12), day \<open>d\<close> (from 1)\<close>
  "MakeDay y m d = DayFromYear y + sum_list (map (DaysInMonth y) [1..m - 1]) + (d - 1)"

definition parse_ymd :: "string \<Rightarrow> (int \<times> int \<times> int) option" where
  \<comment> \<open>\<^verbatim>\<open>YYYY-MM-DD\<close> naming a day of the calendar\<close>
  "parse_ymd s =
     (let ys = take 4 s; ms = take 2 (drop 5 s); ds = take 2 (drop 8 s);
          y = int (nat_of_digits ys); m = int (nat_of_digits ms); d = int (nat_of_digits ds)
      in if length s = 10 \<and> s ! 4 = CHR ''-'' \<and> s ! 7 = CHR ''-''
            \<and> list_all is_digit (ys @ ms @ ds)
            \<and> 1 \<le> m \<and> m \<le> 12 \<and> 1 \<le> d \<and> d \<le> DaysInMonth y m
         then Some (y, m, d) else None)"

definition parse_hms :: "string \<Rightarrow> int option" where
  \<comment> \<open>\<^verbatim>\<open>HH:mm:ss\<close>, as milliseconds into the day\<close>
  "parse_hms s =
     (let hs = take 2 s; ms = take 2 (drop 3 s); ss = take 2 (drop 6 s);
          h = int (nat_of_digits hs); m = int (nat_of_digits ms); sec = int (nat_of_digits ss)
      in if length s = 8 \<and> s ! 2 = CHR '':'' \<and> s ! 5 = CHR '':''
            \<and> list_all is_digit (hs @ ms @ ss)
            \<and> (h < 24 \<and> m < 60 \<and> sec < 60 \<or> h = 24 \<and> m = 0 \<and> sec = 0)
         then Some (((h * 60 + m) * 60 + sec) * 1000) else None)"

definition new_Date :: "int \<Rightarrow> string \<Rightarrow> int option" where
  \<comment> \<open>\<^verbatim>\<open>new Date(s)\<close>: the date-only form is UTC, the date-time form without offset is
      local time. ECMAScript leaves every other string to the implementation; the model
      gives the invalid date for them.\<close>
  "new_Date tza s =
     (case parse_ymd s of
        Some (y, m, d) \<Rightarrow> Some (MakeDay y m d * msPerDay)
      | None \<Rightarrow>
          (case (parse_ymd (take 10 s), parse_hms (drop 11 s)) of
             (Some (y, m, d), Some t) \<Rightarrow>
               if length s = 19 \<and> s ! 10 = CHR ''T''
               then Some (MakeDay y m d * msPerDay + t - tza) else None
           | _ \<Rightarrow> None))"

definition setHours_end_of_day :: "int \<Rightarrow> int option \<Rightarrow> int option" where
  \<comment> \<open>\<^verbatim>\<open>end.setHours(23,59,59,999)\<close>: the last millisecond of the local day of \<open>end\<close>\<close>
  "setHours_end_of_day tza d =
     (case d of
        None \<Rightarrow> None
      | Some t \<Rightarrow> Some (((t + tza) div msPerDay) * msPerDay + 86399999 - tza))"

definition date_lt :: "int option \<Rightarrow> int option \<Rightarrow> bool" where
  \<comment> \<open>\<^verbatim>\<open>a < b\<close> on dates: false when either is invalid\<close>
  "date_lt a b = (case (a, b) of (Some x, Some y) \<Rightarrow> x < y | _ \<Rightarrow> False)"

subsection \<open>Filtering\<close>

record filter_form =
  filterStart :: string
  filterEnd :: string
  filterCategory :: string

record filters =
  start :: "int option option"
  end_date :: "int option option"
  fcategory :: string

definition getFilters :: "int \<Rightarrow> filter_form \<Rightarrow> filters" where
  \<comment> \<open>\<open>None\<close> is \<^verbatim>\<open>null\<close> (no bound); \<open>Some d\<close> is the \<^verbatim>\<open>Date\<close> \<open>d\<close>\<close>
  "getFilters tza form =
     (let start = (if filterStart form \<noteq> [] then Some (new_Date tza (filterStart form)) else None);
          end0 = (if filterEnd form \<noteq> [] then Some (new_Date tza (filterEnd form)) else None);
          end1 = map_option (setHours_end_of_day tza) end0;
          category = (if filterCategory form \<noteq> [] then filterCategory form else ''all'')
      in \<lparr> start = start, end_date = end1, fcategory = category \<rparr>)"

definition passes :: "int \<Rightarrow> filters \<Rightarrow> tx \<Rightarrow> bool" where
  \<comment> \<open>the callback of \<^verbatim>\<open>transArray.filter\<close> in \<^verbatim>\<open>applyFilters\<close>\<close>
  "passes tza f t =
     (let tDate = new_Date tza (date t @ ''T00:00:00'')
      in if (case start f of Some s \<Rightarrow> date_lt tDate s | None \<Rightarrow> False) then False
         else if (case end_date f of Some e \<Rightarrow> date_lt e tDate | None \<Rightarrow> False) then False
         else if fcategory f \<noteq> [] \<and> fcategory f \<noteq> ''all'' \<and> category t \<noteq> fcategory f then False
         else True)"

definition applyFilters :: "int \<Rightarrow> filter_form \<Rightarrow> tx list \<Rightarrow> tx list" where
  "applyFilters tza form transArray = filter (passes tza (getFilters tza form)) transArray"

subsection \<open>Stored values\<close>

text \<open>
  What \<^verbatim>\<open>JSON.parse\<close> returns. A string is the list of its code units; \<open>char\<close> has 256
  values, so the model covers the strings whose code units are below 256.
  An exception is a value of \<open>js_error\<close> on the left of a sum.
\<close>

datatype jsval =
    Undefined
  | Null
  | Bool bool
  | Num jsnum
  | Str string
  | Arr "jsval list"
  | Obj "(string \<times> jsval) list"

datatype js_error = TypeError | SyntaxError

definition bind_err :: "'e + 'a \<Rightarrow> ('a \<Rightarrow> 'e + 'b) \<Rightarrow> 'e + 'b" where
  "bind_err m f = (case m of Inl e \<Rightarrow> Inl e | Inr x \<Rightarrow> f x)"

definition own_prop :: "jsval \<Rightarrow> string \<Rightarrow> jsval" where
  \<comment> \<open>the value stored under \<open>k\<close>, \<^verbatim>\<open>undefined\<close> when there is none; of the names
      the code reads (id, name, amount, type, date, category) a primitive or an array
      has none, and no prototype defines one\<close>
  "own_prop v k =
     (case v of
        Obj kvs \<Rightarrow> (case map_of kvs k of Some x \<Rightarrow> x | None \<Rightarrow> Undefined)
      | _ \<Rightarrow> Undefined)"

definition get_prop :: "jsval \<Rightarrow> string \<Rightarrow> js_error + jsval" where
  \<comment> \<open>\<^verbatim>\<open>v.k\<close>: reading a property of \<^verbatim>\<open>null\<close> or \<^verbatim>\<open>undefined\<close> throws\<close>
  "get_prop v k =
     (case v of
        Undefined \<Rightarrow> Inl TypeError
      | Null \<Rightarrow> Inl TypeError
      | _ \<Rightarrow> Inr (own_prop v k))"

definition nullish :: "jsval \<Rightarrow> bool" where
  "nullish v = (v = Undefined \<or> v = Null)"

definition coalesce :: "jsval \<Rightarrow> jsval \<Rightarrow> jsval" where
  \<comment> \<open>\<^verbatim>\<open>a ?? b\<close>\<close>
  "coalesce a b = (if nullish a then b else a)"

definition Number :: "(jsval \<Rightarrow> js_error + jsnum) \<Rightarrow> jsval \<Rightarrow> js_error + jsnum" where
  \<comment> \<open>\<^verbatim>\<open>Number(v)\<close>; the host converts strings, arrays and objects (\<open>ToNumber_host\<close>),
      and converting an object can throw\<close>
  "Number ToNumber_host v =
     (case v of
        Undefined \<Rightarrow> Inr NaN
      | Null \<Rightarrow> Inr (Fin 0)
      | Bool b \<Rightarrow> Inr (Fin (if b then 1 else 0))
      | Num n \<Rightarrow> Inr n
      | _ \<Rightarrow> ToNumber_host v)"

subsection \<open>Loading\<close>

definition fresh_id :: "int \<Rightarrow> int \<Rightarrow> jsnum" where
  \<comment> \<open>\<^verbatim>\<open>Date.now() + Math.floor(Math.random() * 1000)\<close>, from the two readings\<close>
  "fresh_id now r = fadd (Fin (of_int now)) (Fin (of_int r))"

definition normalize_record ::
  "(jsval \<Rightarrow> js_error + jsnum) \<Rightarrow> jsnum \<Rightarrow> string \<Rightarrow> jsval
    \<Rightarrow> js_error + (jsval, jsval) transaction" where
  \<comment> \<open>the callback of \<^verbatim>\<open>parsed.map\<close>; \<open>fresh\<close> and \<open>today\<close> are the values of
      \<^verbatim>\<open>Date.now() + Math.floor(Math.random() * 1000)\<close> and of
      \<^verbatim>\<open>new Date().toISOString().slice(0,10)\<close> at this element\<close>
  "normalize_record ToNumber_host fresh today t =
     bind_err (get_prop t ''id'') (\<lambda>i.
     bind_err (get_prop t ''name'') (\<lambda>n.
     bind_err (get_prop t ''amount'') (\<lambda>a.
     bind_err (Number ToNumber_host (coalesce a (Num (Fin 0)))) (\<lambda>amt.
     bind_err (get_prop t ''type'') (\<lambda>ty.
     bind_err (get_prop t ''date'') (\<lambda>d.
     bind_err (get_prop t ''category'') (\<lambda>c.
       Inr \<lparr> tx_id = coalesce i (Num fresh),
             name = coalesce n (Str ''Unnamed''),
             amount = amt,
             type = (if ty = Str ''expense'' then ''expense'' else ''income''),
             date = coalesce d (Str today),
             category = coalesce c (Str ''Uncategorized'') \<rparr>)))))))"

fun map_throwing :: "('a \<Rightarrow> 'e + 'b) \<Rightarrow> 'a list \<Rightarrow> 'e + 'b list" where
  \<comment> \<open>\<^verbatim>\<open>Array.prototype.map\<close> with a callback that may throw\<close>
  "map_throwing f [] = Inr []"
| "map_throwing f (x # xs) =
     bind_err (f x) (\<lambda>y. bind_err (map_throwing f xs) (\<lambda>ys. Inr (y # ys)))"

definition load_try ::
  "(string \<Rightarrow> js_error + jsval) \<Rightarrow> (jsval \<Rightarrow> js_error + jsnum)
    \<Rightarrow> (nat \<Rightarrow> int) \<Rightarrow> (nat \<Rightarrow> int) \<Rightarrow> (nat \<Rightarrow> string)
    \<Rightarrow> string option \<Rightarrow> js_error + (jsval, jsval) transaction list" where
  \<comment> \<open>the body of the \<^verbatim>\<open>try\<close>; \<open>raw\<close> is what \<^verbatim>\<open>localStorage.getItem\<close> returned
      (\<open>None\<close> is \<^verbatim>\<open>null\<close>); \<open>now k\<close>, \<open>rnd k\<close> and \<open>today k\<close> are the readings of the
      clock and of the random numbers at the element of index \<open>k\<close>\<close>
  "load_try JSON_parse ToNumber_host now rnd today raw =
     bind_err
       (case raw of
          None \<Rightarrow> Inr (Arr [])
        | Some s \<Rightarrow> if s \<noteq> [] then JSON_parse s else Inr (Arr []))
       (\<lambda>parsed.
          case parsed of
            Arr xs \<Rightarrow>
              map_throwing
                (\<lambda>(k, t). normalize_record ToNumber_host (fresh_id (now k) (rnd k)) (today k) t)
                (zip [0..<length xs] xs)
          | _ \<Rightarrow> Inr [])"

definition loadTransactions ::
  "(string \<Rightarrow> js_error + jsval) \<Rightarrow> (jsval \<Rightarrow> js_error + jsnum)
    \<Rightarrow> (nat \<Rightarrow> int) \<Rightarrow> (nat \<Rightarrow> int) \<Rightarrow> (nat \<Rightarrow> string)
    \<Rightarrow> string option \<Rightarrow> js_error + (jsval, jsval) transaction list" where
  \<comment> \<open>the new value of \<^verbatim>\<open>transactions\<close>; the \<^verbatim>\<open>catch\<close> resets it to the empty array\<close>
  "loadTransactions JSON_parse ToNumber_host now rnd today raw =
     (case load_try JSON_parse ToNumber_host now rnd today raw of
        Inl e \<Rightarrow> Inr []
      | Inr ts \<Rightarrow> Inr ts)"

subsection \<open>Adding\<close>

definition is_space :: "char \<Rightarrow> bool" where
  \<comment> \<open>the white space and line terminators below 256: TAB, LF, VT, FF, CR, SP, NBSP\<close>
  "is_space c = ((of_char c :: nat) \<in> {9, 10, 11, 12, 13, 32, 160})"

definition trim :: "string \<Rightarrow> string" where
  "trim s = rev (dropWhile is_space (rev (dropWhile is_space s)))"

definition addTransaction ::
  "int \<Rightarrow> int \<Rightarrow> string \<Rightarrow> jsnum \<Rightarrow> string \<Rightarrow> string \<Rightarrow> string \<Rightarrow> tx list
    \<Rightarrow> tx list" where
  \<comment> \<open>\<open>now\<close> and \<open>r\<close> are the readings \<^verbatim>\<open>Date.now()\<close> and
      \<^verbatim>\<open>Math.floor(Math.random() * 1000)\<close>; \<^verbatim>\<open>Number(amount)\<close> of a number is that
      number\<close>
  "addTransaction now r name' amount' type' date' category' transactions =
     transactions @
       [\<lparr> tx_id = fresh_id now r,
          name = trim name',
          amount = amount',
          type = type',
          date = date',
          category = (if trim category' \<noteq> [] then trim category' else ''Uncategorized'') \<rparr>]"

definition validateInputs :: "string \<Rightarrow> jsnum \<Rightarrow> string \<Rightarrow> string \<Rightarrow> bool" where
  \<comment> \<open>called with the number \<^verbatim>\<open>Math.abs(Number(...))\<close>, which is neither \<^verbatim>\<open>''\<close> nor
      \<^verbatim>\<open>null\<close>\<close>
  "validateInputs name' amount' date' category' =
     (if name' = [] \<or> trim name' = [] then False
      else if isNaN amount' \<or> \<not> isFinite amount' \<or> js_le amount' (Fin 0) then False
      else if date' = [] then False
      else if category' = [] \<or> trim category' = [] then False
      else True)"

record transaction_form =
  transactionName :: string
  transactionAmount :: string
  transactionDate :: string
  transactionCategory :: string
  transactionType :: string

definition submit ::
  "(string \<Rightarrow> jsnum) \<Rightarrow> int \<Rightarrow> int \<Rightarrow> string \<Rightarrow> transaction_form \<Rightarrow> tx list
    \<Rightarrow> tx list" where
  \<comment> \<open>the submit handler of the form, the caller of \<^verbatim>\<open>addTransaction\<close>;
      \<open>StringToNumber\<close> is the host's \<^verbatim>\<open>Number\<close> on strings, \<open>today\<close> the value of
      \<^verbatim>\<open>new Date().toISOString().slice(0,10)\<close>\<close>
  "submit StringToNumber now r today form transactions =
     (let name' = transactionName form;
          amount' = Math_abs (StringToNumber (transactionAmount form));
          date' = (if transactionDate form \<noteq> [] then transactionDate form else today);
          category' = (if transactionCategory form \<noteq> [] then transactionCategory form
                       else ''Uncategorized'');
          type' = transactionType form
      in if \<not> validateInputs name' amount' date' category' then transactions
         else addTransaction now r name' amount' type' date' category' transactions)"

subsection \<open>Balance\<close>



subsection \<open>Monthly summary\<close>








fun insert_sorted :: "('a \<Rightarrow> 'a \<Rightarrow> int) \<Rightarrow> 'a \<Rightarrow> 'a list \<Rightarrow> 'a list" where
  "insert_sorted cmp x [] = [x]"
| "insert_sorted cmp x (y # ys) =
     (if cmp x y \<le> 0 then x # y # ys else y # insert_sorted cmp x ys)"

definition sort_by_cmp :: "('a \<Rightarrow> 'a \<Rightarrow> int) \<Rightarrow> 'a list \<Rightarrow> 'a list" where
  \<comment> \<open>\<^verbatim>\<open>Array.prototype.sort(cmp)\<close>, which is stable: a stable insertion sort. Every
      implementation gives this result when \<open>cmp\<close> is a consistent comparator;
      ECMAScript leaves the order open otherwise.\<close>
  "sort_by_cmp cmp xs = foldr (insert_sorted cmp) xs []"






subsection \<open>CSV export\<close>

definition digit_char :: "nat \<Rightarrow> char" where
  "digit_char n = char_of (48 + n)"

fun decimal :: "nat \<Rightarrow> string" where
  \<comment> \<open>the decimal digits of \<open>n\<close>, without leading zeros; \<open>0\<close> is \<^verbatim>\<open>0\<close>\<close>
  "decimal n = (if n < 10 then [digit_char n] else decimal (n div 10) @ [digit_char (n mod 10)])"

declare decimal.simps [simp del]

definition Number_toString :: "(rat \<Rightarrow> string) \<Rightarrow> jsnum \<Rightarrow> string" where
  \<comment> \<open>\<^verbatim>\<open>String(x)\<close> of a number: an integer below \<open>10\<^sup>2\<^sup>1\<close> is written with its decimal
      digits; for the other finite numbers the host's shortest digits \<open>host_digits\<close> are
      a parameter\<close>
  "Number_toString host_digits x =
     (case x of
        NaN \<Rightarrow> ''NaN''
      | PInf \<Rightarrow> ''Infinity''
      | NInf \<Rightarrow> ''-Infinity''
      | Fin q \<Rightarrow>
          if q = of_int \<lfloor>q\<rfloor> \<and> \<bar>q\<bar> < 10 ^ 21
          then (if q < 0 then ''-'' else []) @ decimal (nat \<bar>\<lfloor>q\<rfloor>\<bar>)
          else host_digits q)"

definition toFixed2 :: "(rat \<Rightarrow> string) \<Rightarrow> jsnum \<Rightarrow> string" where
  \<comment> \<open>\<^verbatim>\<open>x.toFixed(2)\<close>: a number that is not finite, or of magnitude \<open>10\<^sup>2\<^sup>1\<close> or more, is
      written as \<^verbatim>\<open>String\<close> writes it; otherwise \<open>n\<close> is the integer nearest to
      \<open>100 \<cdot> \<bar>x\<bar>\<close>, the larger one of two, written with at least three digits and a
      point before the last two\<close>
  "toFixed2 host_digits x =
     (case x of
        Fin q \<Rightarrow>
          (let s = (if q < 0 then ''-'' else []); a = \<bar>q\<bar>
           in if 10 ^ 21 \<le> a then s @ Number_toString host_digits (Fin a)
              else let n = nat \<lfloor>a * 100 + 1 / 2\<rfloor>;
                       m = decimal n;
                       m' = replicate (3 - length m) (CHR ''0'') @ m;
                       k = length m'
                   in s @ take (k - 2) m' @ ''.'' @ drop (k - 2) m')
      | _ \<Rightarrow> Number_toString host_digits x)"

definition formatAmount :: "(rat \<Rightarrow> string) \<Rightarrow> jsnum \<Rightarrow> string" where
  \<comment> \<open>\<^verbatim>\<open>const n = Number(num) || 0; return n.toFixed(2);\<close> for a number \<open>num\<close>\<close>
  "formatAmount host_digits num =
     (let n = (if isNaN num \<or> num = Fin 0 then Fin 0 else num) in toFixed2 host_digits n)"

fun replace_quotes :: "string \<Rightarrow> string" where
  \<comment> \<open>\<^verbatim>\<open>.replace(/"/g,'""')\<close>\<close>
  "replace_quotes [] = []"
| "replace_quotes (c # cs) =
     (if c = CHR 0x22 then CHR 0x22 # CHR 0x22 # replace_quotes cs else c # replace_quotes cs)"

definition csv_cell :: "string \<Rightarrow> string" where
  "csv_cell cell = CHR 0x22 # replace_quotes cell @ [CHR 0x22]"

fun join :: "string \<Rightarrow> string list \<Rightarrow> string" where
  \<comment> \<open>\<^verbatim>\<open>Array.prototype.join\<close> on strings\<close>
  "join sep [] = []"
| "join sep [x] = x"
| "join sep (x # y # ys) = x @ sep @ join sep (y # ys)"

definition exportToCsv :: "(rat \<Rightarrow> string) \<Rightarrow> tx list \<Rightarrow> string" where
  \<comment> \<open>\<^verbatim>\<open>csvContent\<close>, the text that is offered for download\<close>
  "exportToCsv host_digits filteredArray =
     (let rows = [[''id'', ''name'', ''amount'', ''type'', ''date'', ''category'']]
                 @ map (\<lambda>t. [Number_toString host_digits (tx_id t), name t,
                              formatAmount host_digits (amount t), type t, date t, category t])
                       filteredArray
      in join [CHR 0x0A] (map (\<lambda>r. join '','' (map csv_cell r)) rows))"

subsection \<open>Whole amounts\<close>



subsection \<open>A sample host\<close>

text \<open>
  Concrete values for the host's parameters, used where a statement is evaluated at an
  input: a \<^verbatim>\<open>JSON.parse\<close> that knows a few texts, a number conversion for the strings
  that occur, a clock, and the comparison of strings by code units.
\<close>

definition parse_sample :: "string \<Rightarrow> js_error + jsval" where
  "parse_sample s =
     (if s = ''[5]'' then Inr (Arr [Num (Fin 5)])
      else if s = ''[null]'' then Inr (Arr [Null])
      else if s = ''{}'' then Inr (Obj [])
      else if s = ''[{\"name\":\"X\"},null]'' then Inr (Arr [Obj [(''name'', Str ''X'')], Null])
      else if s = ''[{\"name\":\"X\"}]'' then Inr (Arr [Obj [(''name'', Str ''X'')]])
      else if s = ''[{\"name\":\"\",\"amount\":-5,\"date\":\"soon\",\"category\":\"\"}]''
        then Inr (Arr [Obj [(''name'', Str ''''), (''amount'', Num (Fin (- 5))),
                            (''date'', Str ''soon''), (''category'', Str '''')]])
      else Inl SyntaxError)"

definition ToNumber_sample :: "jsval \<Rightarrow> js_error + jsnum" where
  "ToNumber_sample v = (if v = Str ''12.5'' then Inr (Fin (25 / 2)) else Inr NaN)"

definition StringToNumber_sample :: "string \<Rightarrow> jsnum" where
  "StringToNumber_sample s =
     (if s = ''12.5'' then Fin (25 / 2) else if s = ''-12.5'' then Fin (- 25 / 2) else NaN)"

definition now_sample :: "nat \<Rightarrow> int" where
  "now_sample k = 1700000000000 + int k"

definition rnd_sample :: "nat \<Rightarrow> int" where
  "rnd_sample k = 7"

definition today_sample :: "nat \<Rightarrow> string" where
  "today_sample k = ''2024-03-15''"




section \<open>Properties\<close>

subsection \<open>Deleting a transaction\<close>

text \<open>
  C9. \<^verbatim>\<open>deleteTransaction(id)\<close> removes the transactions whose id is \<^verbatim>\<open>===\<close> the given
  one and nothing else: what remains is a subsequence of the ledger, in the same order,
  holding every other transaction as often as before; when no transaction has the id
  the ledger is unchanged. The function has no failing branch.
\<close>

theorem deleteTransaction_removes_matching:
  "subseq (deleteTransaction i ts) ts
   \<and> (\<forall>t \<in> set (deleteTransaction i ts). \<not> strict_eq (tx_id t) i)
   \<and> (\<forall>t. \<not> strict_eq (tx_id t) i \<longrightarrow> count_list (deleteTransaction i ts) t = count_list ts t)
   \<and> ((\<forall>t \<in> set ts. \<not> strict_eq (tx_id t) i) \<longrightarrow> deleteTransaction i ts = ts)"
proof -
  have "count_list (filter P xs) t = count_list xs t" if "P t" for P and xs :: "tx list" and t
    using that by (induction xs) auto
  then show ?thesis
    by (auto simp: deleteTransaction_def)
qed

theorem deleteTransaction_removes_matching_witness:
  "deleteTransaction (Fin 2)
     [\<lparr> tx_id = Fin 1, name = ''Pay'', amount = Fin 100, type = ''income'',
        date = ''2024-01-05'', category = ''Salary'' \<rparr>,
      \<lparr> tx_id = Fin 2, name = ''Lunch'', amount = Fin 30, type = ''expense'',
        date = ''2024-01-10'', category = ''Food'' \<rparr>]
   = [\<lparr> tx_id = Fin 1, name = ''Pay'', amount = Fin 100, type = ''income'',
        date = ''2024-01-05'', category = ''Salary'' \<rparr>]
   \<and> deleteTransaction (Fin 7)
     [\<lparr> tx_id = Fin 1, name = ''Pay'', amount = Fin 100, type = ''income'',
        date = ''2024-01-05'', category = ''Salary'' \<rparr>]
   = [\<lparr> tx_id = Fin 1, name = ''Pay'', amount = Fin 100, type = ''income'',
        date = ''2024-01-05'', category = ''Salary'' \<rparr>]"
  using deleteTransaction_removes_matching [of "Fin 7"
      "[\<lparr> tx_id = Fin 1, name = ''Pay'', amount = Fin 100, type = ''income'',
          date = ''2024-01-05'', category = ''Salary'' \<rparr>]"]
  by (simp add: deleteTransaction_def)

subsection \<open>The filter keeps the order\<close>

text \<open>
  C8. With category \<^verbatim>\<open>all\<close> (or no category chosen) and both date fields empty,
  \<^verbatim>\<open>applyFilters\<close> returns the transactions as they are; for every state of the filter
  form its result is a subsequence of its input, so the order is never changed.
\<close>

theorem applyFilters_identity_and_stable:
  "applyFilters tza \<lparr> filterStart = '''', filterEnd = '''', filterCategory = ''all'' \<rparr> ts = ts
   \<and> applyFilters tza \<lparr> filterStart = '''', filterEnd = '''', filterCategory = '''' \<rparr> ts = ts
   \<and> (\<forall>form. subseq (applyFilters tza form ts) ts)"
  by (simp add: applyFilters_def getFilters_def passes_def)

theorem applyFilters_identity_and_stable_witness:
  "applyFilters 0 \<lparr> filterStart = '''', filterEnd = '''', filterCategory = ''all'' \<rparr>
     [\<lparr> tx_id = Fin 2, name = ''Lunch'', amount = Fin 30, type = ''expense'',
        date = ''2024-01-10'', category = ''Food'' \<rparr>,
      \<lparr> tx_id = Fin 1, name = ''Pay'', amount = Fin 100, type = ''income'',
        date = ''2024-01-05'', category = ''Salary'' \<rparr>]
   = [\<lparr> tx_id = Fin 2, name = ''Lunch'', amount = Fin 30, type = ''expense'',
        date = ''2024-01-10'', category = ''Food'' \<rparr>,
      \<lparr> tx_id = Fin 1, name = ''Pay'', amount = Fin 100, type = ''income'',
        date = ''2024-01-05'', category = ''Salary'' \<rparr>]"
  using applyFilters_identity_and_stable [of 0
      "[\<lparr> tx_id = Fin 2, name = ''Lunch'', amount = Fin 30, type = ''expense'',
          date = ''2024-01-10'', category = ''Food'' \<rparr>,
        \<lparr> tx_id = Fin 1, name = ''Pay'', amount = Fin 100, type = ''income'',
          date = ''2024-01-05'', category = ''Salary'' \<rparr>]"]
  by simp

subsection \<open>The bounds of the date range\<close>

text \<open>
  C1. The claim is that a transaction dated on the start date or on the end date of the
  filter passes, whatever the offset of the local time zone. The code reads the bounds
  with \<^verbatim>\<open>new Date('YYYY-MM-DD')\<close>, which is midnight UTC, and the transaction's date
  with \<^verbatim>\<open>new Date(t.date + 'T00:00:00')\<close>, which is midnight local time. Five hours
  west of UTC the end bound, moved to 23:59:59.999 of its local day, is the evening
  before the end date, and a transaction on the end date is dropped; five and a half
  hours east of UTC the start bound is later than local midnight of the start date, and a
  transaction on the start date is dropped. At offset 0 both pass.
\<close>

theorem applyFilters_drops_bound_dates_off_UTC:
  "applyFilters (- 18000000)
     \<lparr> filterStart = '''', filterEnd = ''2024-01-31'', filterCategory = ''all'' \<rparr>
     [\<lparr> tx_id = Fin 1, name = ''Rent'', amount = Fin 30, type = ''expense'',
        date = ''2024-01-31'', category = ''Home'' \<rparr>] = []
   \<and> applyFilters 19800000
     \<lparr> filterStart = ''2024-01-06'', filterEnd = '''', filterCategory = ''all'' \<rparr>
     [\<lparr> tx_id = Fin 1, name = ''Rent'', amount = Fin 30, type = ''expense'',
        date = ''2024-01-06'', category = ''Home'' \<rparr>] = []
   \<and> applyFilters 0
     \<lparr> filterStart = ''2024-01-06'', filterEnd = ''2024-01-06'', filterCategory = ''all'' \<rparr>
     [\<lparr> tx_id = Fin 1, name = ''Rent'', amount = Fin 30, type = ''expense'',
        date = ''2024-01-06'', category = ''Home'' \<rparr>]
     = [\<lparr> tx_id = Fin 1, name = ''Rent'', amount = Fin 30, type = ''expense'',
          date = ''2024-01-06'', category = ''Home'' \<rparr>]"
  by code_simp

subsection \<open>Whole numbers are added without rounding\<close>







subsection \<open>Loading the stored transactions\<close>

lemma map_throwing_Inl:
  "x \<in> set xs \<Longrightarrow> f x = Inl e \<Longrightarrow> \<exists>e'. map_throwing f xs = Inl e'"
  by (induction xs) (auto simp: bind_err_def split: sum.splits)







text \<open>
  C4. When nothing is stored, when the stored text is empty, when \<^verbatim>\<open>JSON.parse\<close>
  throws on it, or when it parses to a value that is not an array,
  \<^verbatim>\<open>loadTransactions\<close> ends normally with the empty ledger.
\<close>

theorem loadTransactions_fail_safe:
  "raw = None \<or> raw = Some []
     \<or> (\<exists>s e. raw = Some s \<and> P s = Inl e)
     \<or> (\<exists>s v. raw = Some s \<and> P s = Inr v \<and> (\<forall>xs. v \<noteq> Arr xs))
   \<Longrightarrow> loadTransactions P H now rnd today raw = Inr []"
  by (auto simp: loadTransactions_def load_try_def bind_err_def
           split: sum.splits jsval.splits option.splits)

theorem loadTransactions_fail_safe_witness:
  "loadTransactions parse_sample ToNumber_sample now_sample rnd_sample today_sample
     (Some ''{}'') = Inr []
   \<and> loadTransactions parse_sample ToNumber_sample now_sample rnd_sample today_sample
     (Some ''[{'') = Inr []
   \<and> loadTransactions parse_sample ToNumber_sample now_sample rnd_sample today_sample
     None = Inr []"
proof -
  have 1: "parse_sample ''{}'' = Inr (Obj [])"
    by (simp add: parse_sample_def)
  have 2: "parse_sample ''[{'' = Inl SyntaxError"
    by (simp add: parse_sample_def)
  show ?thesis
    using loadTransactions_fail_safe
            [of "Some ''{}''" parse_sample ToNumber_sample now_sample rnd_sample today_sample]
          loadTransactions_fail_safe
            [of "Some ''[{''" parse_sample ToNumber_sample now_sample rnd_sample today_sample]
          loadTransactions_fail_safe
            [of None parse_sample ToNumber_sample now_sample rnd_sample today_sample]
          1 2
    by simp
qed

text \<open>
  C10, as claimed: one element that is not an object makes the whole stored array be
  discarded. That holds for \<^verbatim>\<open>null\<close> only. A number, a string or a boolean has no
  property of the names read, so each field takes its default and the element is loaded
  as a transaction: the stored array \<^verbatim>\<open>[5]\<close> gives a ledger of one transaction.
\<close>

theorem loadTransactions_keeps_primitive_element:
  "loadTransactions parse_sample ToNumber_sample now_sample rnd_sample today_sample
     (Some ''[5]'')
   = Inr [\<lparr> tx_id = Num (Fin 1700000000007), name = Str ''Unnamed'', amount = Fin 0,
             type = ''income'', date = Str ''2024-03-15'', category = Str ''Uncategorized'' \<rparr>]"
  by code_simp

text \<open>
  C10, amended. If the stored text parses to an array with at least one \<^verbatim>\<open>null\<close>
  element, \<^verbatim>\<open>loadTransactions\<close> discards the whole array and yields the empty ledger,
  whatever the other elements are.
\<close>

theorem loadTransactions_null_element_discards_all:
  "raw = Some s \<Longrightarrow> s \<noteq> [] \<Longrightarrow> P s = Inr (Arr xs) \<Longrightarrow> Null \<in> set xs
   \<Longrightarrow> loadTransactions P H now rnd today raw = Inr []"
proof -
  assume a: "raw = Some s" "s \<noteq> []" "P s = Inr (Arr xs)" "Null \<in> set xs"
  let ?f = "\<lambda>(k, t). normalize_record H (fresh_id (now k) (rnd k)) (today k) t"
  from a obtain k where k: "k < length xs" "xs ! k = Null"
    by (auto simp: in_set_conv_nth)
  then have m: "(k, Null) \<in> set (zip [0..<length xs] xs)"
    by (force simp: in_set_zip)
  have t: "?f (k, Null) = Inl TypeError"
    by (simp add: normalize_record_def get_prop_def bind_err_def)
  from map_throwing_Inl [of "(k, Null)" "zip [0..<length xs] xs" ?f TypeError] m t
  obtain e where "map_throwing ?f (zip [0..<length xs] xs) = Inl e"
    by blast
  with a show ?thesis
    by (simp add: loadTransactions_def load_try_def bind_err_def)
qed

theorem loadTransactions_null_element_discards_all_witness:
  "loadTransactions parse_sample ToNumber_sample now_sample rnd_sample today_sample
     (Some ''[{\"name\":\"X\"},null]'') = Inr []"
proof -
  have p: "parse_sample ''[{\"name\":\"X\"},null]'' = Inr (Arr [Obj [(''name'', Str ''X'')], Null])"
    by (simp add: parse_sample_def)
  show ?thesis
    using loadTransactions_null_element_discards_all
            [of "Some ''[{\"name\":\"X\"},null]''" "''[{\"name\":\"X\"},null]''" parse_sample
                "[Obj [(''name'', Str ''X'')], Null]"
                ToNumber_sample now_sample rnd_sample today_sample] p
    by simp
qed

subsection \<open>Adding a transaction\<close>

lemma trim_decomposition:
  "\<exists>l r. s = l @ trim s @ r \<and> list_all is_space l \<and> list_all is_space r"
proof -
  let ?m = "dropWhile is_space s"
  have "s = takeWhile is_space s @ ?m" by simp
  moreover have "rev ?m = takeWhile is_space (rev ?m) @ dropWhile is_space (rev ?m)" by simp
  then have "?m = trim s @ rev (takeWhile is_space (rev ?m))"
    unfolding trim_def by (metis rev_append rev_rev_ident)
  moreover have "list_all is_space (takeWhile is_space s)"
    by (auto simp: list_all_iff dest: set_takeWhileD)
  moreover have "list_all is_space (rev (takeWhile is_space (rev ?m)))"
    by (auto simp: list_all_iff dest: set_takeWhileD)
  ultimately show ?thesis by metis
qed

lemma trim_ends:
  "trim s \<noteq> [] \<Longrightarrow> \<not> is_space (hd (trim s)) \<and> \<not> is_space (last (trim s))"
proof -
  assume ne: "trim s \<noteq> []"
  let ?m = "dropWhile is_space s"
  let ?k = "dropWhile is_space (rev ?m)"
  from ne have k: "?k \<noteq> []" by (simp add: trim_def)
  have m: "?m \<noteq> []"
  proof
    assume e: "?m = []"
    have "?k = []" unfolding e by simp
    with k show False by simp
  qed
  have "last (trim s) = hd ?k" using k by (simp add: trim_def last_rev)
  moreover have "\<not> is_space (hd ?k)" using k by (rule hd_dropWhile)
  moreover have "rev ?m = takeWhile is_space (rev ?m) @ ?k" by simp
  then have "?m = trim s @ rev (takeWhile is_space (rev ?m))"
    unfolding trim_def by (metis rev_append rev_rev_ident)
  then have "hd ?m = hd (trim s)" using ne by (metis hd_append2)
  moreover have "\<not> is_space (hd ?m)" using m by (rule hd_dropWhile)
  ultimately show ?thesis by simp
qed

text \<open>
  C3, as claimed: the transaction that \<^verbatim>\<open>addTransaction\<close> constructs has the absolute
  value of the numeric input as its amount, also for a negative input. The function
  stores \<^verbatim>\<open>Number(amount)\<close> as it is: called with \<open>-5\<close> it appends a transaction of
  amount \<open>-5\<close>, not 5.
\<close>

theorem addTransaction_keeps_sign:
  "addTransaction 1700000000000 7 ''Refund'' (Fin (- 5)) ''income'' ''2024-03-15'' ''Misc'' []
   = [\<lparr> tx_id = Fin 1700000000007, name = ''Refund'', amount = Fin (- 5), type = ''income'',
        date = ''2024-03-15'', category = ''Misc'' \<rparr>]
   \<and> Math_abs (Fin (- 5)) = Fin 5"
  by code_simp

text \<open>
  C3, amended. \<^verbatim>\<open>addTransaction\<close> appends one transaction and leaves the earlier ones
  as they are. The new transaction has the generated id (the clock plus the random
  integer), the name without the white space around it, the amount, type and date as
  passed (the sign of the amount included), and the trimmed category, or
  \<^verbatim>\<open>Uncategorized\<close> when that is empty. The magnitude is taken by the caller: the
  submit handler of the form passes \<^verbatim>\<open>Math.abs(Number(...))\<close> and adds nothing unless
  that is a finite number greater than 0, so a transaction added through the form has a
  positive amount.
\<close>

theorem addTransaction_appends:
  "take (length ts) (addTransaction now r n a ty d c ts) = ts
   \<and> length (addTransaction now r n a ty d c ts) = Suc (length ts)
   \<and> tx_id (last (addTransaction now r n a ty d c ts)) = fresh_id now r
   \<and> name (last (addTransaction now r n a ty d c ts)) = trim n
   \<and> amount (last (addTransaction now r n a ty d c ts)) = a
   \<and> type (last (addTransaction now r n a ty d c ts)) = ty
   \<and> date (last (addTransaction now r n a ty d c ts)) = d
   \<and> (trim c = [] \<longrightarrow> category (last (addTransaction now r n a ty d c ts)) = ''Uncategorized'')
   \<and> (trim c \<noteq> [] \<longrightarrow> category (last (addTransaction now r n a ty d c ts)) = trim c)
   \<and> (\<exists>pre post. n = pre @ trim n @ post \<and> list_all is_space pre \<and> list_all is_space post)
   \<and> (trim n \<noteq> [] \<longrightarrow> \<not> is_space (hd (trim n)) \<and> \<not> is_space (last (trim n)))
   \<and> (submit S now r today form ts = ts
        \<or> (\<exists>q > 0. Math_abs (S (transactionAmount form)) = Fin q
              \<and> length (submit S now r today form ts) = Suc (length ts)
              \<and> take (length ts) (submit S now r today form ts) = ts
              \<and> amount (last (submit S now r today form ts)) = Fin q))"
proof -
  have sub: "submit S now r today form ts = ts
        \<or> (\<exists>q > 0. Math_abs (S (transactionAmount form)) = Fin q
              \<and> length (submit S now r today form ts) = Suc (length ts)
              \<and> take (length ts) (submit S now r today form ts) = ts
              \<and> amount (last (submit S now r today form ts)) = Fin q)"
  proof (cases "Math_abs (S (transactionAmount form))")
    case (Fin q)
    then show ?thesis
      by (cases "0 < q") (auto simp: submit_def validateInputs_def addTransaction_def Let_def)
  qed (simp_all add: submit_def validateInputs_def Let_def)
  show ?thesis
    using trim_decomposition [of n] trim_ends [of n] sub
    by (simp add: addTransaction_def)
qed

theorem addTransaction_appends_witness:
  "addTransaction 1700000000000 7 ''  Refund '' (Fin (25 / 2)) ''income'' ''2024-03-15'' ''  ''
     [\<lparr> tx_id = Fin 1, name = ''Pay'', amount = Fin 100, type = ''income'',
        date = ''2024-01-05'', category = ''Salary'' \<rparr>]
   = [\<lparr> tx_id = Fin 1, name = ''Pay'', amount = Fin 100, type = ''income'',
        date = ''2024-01-05'', category = ''Salary'' \<rparr>,
      \<lparr> tx_id = Fin 1700000000007, name = ''Refund'', amount = Fin (25 / 2), type = ''income'',
        date = ''2024-03-15'', category = ''Uncategorized'' \<rparr>]
   \<and> submit StringToNumber_sample 1700000000000 7 ''2024-03-15''
         \<lparr> transactionName = ''  Refund '', transactionAmount = ''-12.5'',
            transactionDate = [], transactionCategory = [], transactionType = ''income'' \<rparr> []
   = [\<lparr> tx_id = Fin 1700000000007, name = ''Refund'', amount = Fin (25 / 2), type = ''income'',
        date = ''2024-03-15'', category = ''Uncategorized'' \<rparr>]"
proof -
  let ?ts = "[\<lparr> tx_id = Fin 1, name = ''Pay'', amount = Fin 100, type = ''income'',
        date = ''2024-01-05'', category = ''Salary'' \<rparr>]"
  let ?form = "\<lparr> transactionName = ''  Refund '', transactionAmount = ''-12.5'',
            transactionDate = [], transactionCategory = [], transactionType = ''income'' \<rparr>"
  have c: "trim ''  '' = []" and n: "trim ''  Refund '' = ''Refund''"
    and i: "fresh_id 1700000000000 7 = Fin 1700000000007"
    by code_simp+
  have s: "submit StringToNumber_sample 1700000000000 7 ''2024-03-15'' ?form []
   = [\<lparr> tx_id = Fin 1700000000007, name = ''Refund'', amount = Fin (25 / 2), type = ''income'',
        date = ''2024-03-15'', category = ''Uncategorized'' \<rparr>]"
    by code_simp
  have "category (last (addTransaction 1700000000000 7 ''  Refund '' (Fin (25 / 2)) ''income''
          ''2024-03-15'' ''  '' ?ts)) = ''Uncategorized''"
    using addTransaction_appends [of ?ts 1700000000000 7 "''  Refund ''" "Fin (25 / 2)"
            "''income''" "''2024-03-15''" "''  ''" StringToNumber_sample "''2024-03-15''" ?form] c
    by blast
  then show ?thesis
    using s c n i by (simp add: addTransaction_def)
qed

subsection \<open>The monthly summary\<close>









lemma mset_insert_sorted: "mset (insert_sorted cmp x ys) = add_mset x (mset ys)"
  by (induction ys) auto

lemma mset_sort_by_cmp: "mset (sort_by_cmp cmp xs) = mset xs"
  by (induction xs) (auto simp: sort_by_cmp_def mset_insert_sorted)

lemma set_sort_by_cmp: "set (sort_by_cmp cmp xs) = set xs"
  using mset_sort_by_cmp [of cmp xs] by (metis set_mset_mset)







subsection \<open>The balance and the nets of the months\<close>















subsection \<open>The CSV text\<close>




lemma decimal_nonempty: "decimal n \<noteq> []"
  by (subst decimal.simps) simp










lemma exportToCsv_Nil:
  "exportToCsv d [] = join '','' (map csv_cell [''id'', ''name'', ''amount'', ''type'', ''date'', ''category''])"
  by (simp add: exportToCsv_def)






end
